theory Spec2Isabelle
  imports Main
begin

section \<open>Values of the runtime\<close>

text \<open>
  The worker is JavaScript (src/worker.js) on a platform that supplies the request, the
  key-value store \<open>NAVIGATION_STORE\<close>, \<open>JSON.parse\<close>, \<open>JSON.stringify\<close>,
  \<open>Math.random\<close> and \<open>Date.now\<close>. A string is the list of its code units. The
  handlers only test strings for equality, emptiness and a prefix, and split them at
  the ASCII characters \<open>;\<close> and \<open>=\<close>.

  A JSON value is what \<open>JSON.parse\<close> returns. A number carries its canonical text
  (\<open>Number::toString\<close>), under which two parsed numbers are \<open>===\<close> exactly when
  the texts are equal. An object lists its own properties.
\<close>

datatype json =
    JNull
  | JBool bool
  | JNum string
  | JStr string
  | JArr "json list"
  | JObj "(string \<times> json) list"

text \<open>
  The values a handler holds in a variable: \<open>undefined\<close>, a JSON value, or the
  \<open>File\<close> object that \<open>formData.get\<close> returns for an uploaded file.
\<close>

datatype jsval = Undefined | Val json | File

text \<open>The result of \<open>NAVIGATION_STORE.get\<close>, a string or \<open>null\<close>, as a value.\<close>

definition of_kv :: "string option \<Rightarrow> jsval" where
  "of_kv r = (case r of None \<Rightarrow> Val JNull | Some x \<Rightarrow> Val (JStr x))"

text \<open>
  \<open>a === b\<close>. Primitives compare by value. Arrays, objects and files compare by
  reference, and the two operands of every \<open>===\<close> in the worker are distinct
  references (two fields of one parsed body, or a request value and a stored string).
\<close>

fun strict_equals :: "jsval \<Rightarrow> jsval \<Rightarrow> bool" where
  "strict_equals Undefined Undefined = True"
| "strict_equals (Val JNull) (Val JNull) = True"
| "strict_equals (Val (JBool a)) (Val (JBool b)) = (a = b)"
| "strict_equals (Val (JNum a)) (Val (JNum b)) = (a = b)"
| "strict_equals (Val (JStr a)) (Val (JStr b)) = (a = b)"
| "strict_equals _ _ = False"

text \<open>
  Truthiness of a string or nullish value: \<open>!x\<close> holds for \<open>null\<close>,
  \<open>undefined\<close> and the empty string.
\<close>

definition truthy :: "string option \<Rightarrow> bool" where
  "truthy r = (case r of None \<Rightarrow> False | Some x \<Rightarrow> x \<noteq> [])"

section \<open>The platform\<close>

text \<open>
  \<open>JSON_parse\<close> is \<open>JSON.parse\<close> (\<open>None\<close> when it throws), \<open>JSON_stringify\<close>
  is \<open>JSON.stringify\<close> on a JSON value, and \<open>put_coerce\<close> is what
  \<open>NAVIGATION_STORE.put\<close> stores when its value argument is not a string
  (\<open>None\<close> when it rejects the value). The store itself is taken to be available:
  \<open>get\<close>, \<open>put\<close> of a string and \<open>delete\<close> complete.
\<close>

record platform =
  JSON_parse :: "string \<Rightarrow> json option"
  JSON_stringify :: "json \<Rightarrow> string"
  put_coerce :: "jsval \<Rightarrow> string option"

text \<open>
  The values \<open>Math.random().toString(36)\<close> and \<open>Date.now()\<close> take while one
  request is handled.
\<close>

record env =
  random36 :: string
  now :: nat

type_synonym kv = "string \<rightharpoonup> string"

definition NAVIGATION_STORE_get :: "kv \<Rightarrow> string \<Rightarrow> string option" where
  "NAVIGATION_STORE_get s k = s k"

definition NAVIGATION_STORE_put :: "platform \<Rightarrow> string \<Rightarrow> jsval \<Rightarrow> kv \<Rightarrow> kv option" where
  "NAVIGATION_STORE_put P k v s =
     (case v of
        Val (JStr x) \<Rightarrow> Some (s(k \<mapsto> x))
      | _ \<Rightarrow> (case put_coerce P v of None \<Rightarrow> None | Some x \<Rightarrow> Some (s(k \<mapsto> x))))"

definition NAVIGATION_STORE_delete :: "string \<Rightarrow> kv \<Rightarrow> kv" where
  "NAVIGATION_STORE_delete k s = s(k := None)"

text \<open>\<open>JSON.stringify(v)\<close> for a variable: \<open>undefined\<close> stays \<open>undefined\<close>.\<close>

definition stringify :: "platform \<Rightarrow> jsval \<Rightarrow> jsval" where
  "stringify P v = (case v of Val j \<Rightarrow> Val (JStr (JSON_stringify P j)) | _ \<Rightarrow> Undefined)"

section \<open>Requests and responses\<close>

text \<open>
  A request as the handlers read it: \<open>request.method\<close>, the pathname of
  \<open>request.url\<close>, \<open>request.headers.get('Cookie')\<close>, the result of
  \<open>request.json()\<close> and the entries of \<open>request.formData()\<close> (\<open>None\<close> when the
  call rejects).
\<close>

record request =
  req_method :: string
  pathname :: string
  cookie_header :: "string option"
  json_body :: "json option"
  form_data :: "(string \<times> jsval) list option"

text \<open>
  The message literals of the worker, in source order of first use:
  \<open>WrongPassword\<close> is U+5BC6 U+7801 U+9519 U+8BEF (handleAuth),
  \<open>ServerError\<close> is U+670D U+52A1 U+5668 U+9519 U+8BEF (handleAuth, catch),
  \<open>CurrentPasswordWrong\<close>, \<open>PasswordsDiffer\<close>, \<open>PasswordChanged\<close> and
  \<open>ChangeFailed\<close> are the four literals of handleChangePassword, and
  \<open>SaveFailed\<close> is the literal of handleSaveData's catch.
\<close>

datatype message =
    WrongPassword
  | ServerError
  | CurrentPasswordWrong
  | PasswordsDiffer
  | PasswordChanged
  | ChangeFailed
  | SaveFailed

text \<open>
  A response body: the page of \<open>generateHomePage()\<close>, of \<open>generateAdminPage(b)\<close>,
  the text \<open>JSON.stringify({categories: c, sites: d})\<close>, or the text
  \<open>JSON.stringify({success: b, message: m})\<close> (without the message when absent).
\<close>

datatype body =
    HomePage
  | AdminPage bool
  | Data json json
  | Result bool "message option"

record response =
  status :: nat
  headers :: "(string \<times> string) list"
  body :: body

text \<open>\<open>new Response(b, {headers: h})\<close>: the status defaults to 200.\<close>

definition Response :: "body \<Rightarrow> (string \<times> string) list \<Rightarrow> response" where
  "Response b h = \<lparr>status = 200, headers = h, body = b\<rparr>"

definition html_headers :: "(string \<times> string) list" where
  "html_headers = [(''Content-Type'', ''text/html; charset=UTF-8'')]"

definition json_headers :: "(string \<times> string) list" where
  "json_headers = [(''Content-Type'', ''application/json'')]"

definition session_cookie :: "string \<Rightarrow> string" where
  "session_cookie t = ''admin_session='' @ t @ ''; Max-Age=3600; Path=/; HttpOnly''"

section \<open>String operations\<close>

text \<open>\<open>s.split(c)\<close> for a one-character separator: never empty, \<open>''.split(c)\<close> is \<open>['']\<close>.\<close>

function split :: "char \<Rightarrow> string \<Rightarrow> string list" where
  "split c s =
     (case dropWhile (\<lambda>x. x \<noteq> c) s of
        [] \<Rightarrow> [s]
      | _ # rest \<Rightarrow> takeWhile (\<lambda>x. x \<noteq> c) s # split c rest)"
  by pat_completeness auto
termination
proof (relation "measure (\<lambda>(c, s). length s)")
  show "wf (measure (\<lambda>(c, s). length s))" by simp
next
  fix c :: char and s x rest
  assume "dropWhile (\<lambda>x. x \<noteq> c) s = x # rest"
  then have "length (x # rest) \<le> length s"
    by (metis length_dropWhile_le)
  then show "((c, rest), (c, s)) \<in> measure (\<lambda>(c, s). length s)" by simp
qed

declare split.simps [simp del]

text \<open>
  \<open>s.trim()\<close>. The white space of ECMAScript among the code units below 256: tab,
  line feed, vertical tab, form feed, carriage return, space and no-break space.
\<close>

definition is_space :: "char \<Rightarrow> bool" where
  "is_space x = (of_char x \<in> {9, 10, 11, 12, 13, 32, 160 :: nat})"

definition trim :: "string \<Rightarrow> string" where
  "trim s = rev (dropWhile is_space (rev (dropWhile is_space s)))"

definition startsWith :: "string \<Rightarrow> string \<Rightarrow> bool" where
  "startsWith s p = (take (length p) s = p)"

text \<open>\<open>xs[i]\<close>: \<open>undefined\<close> out of range.\<close>

definition index :: "'a list \<Rightarrow> nat \<Rightarrow> 'a option" where
  "index xs i = (if i < length xs then Some (xs ! i) else None)"

text \<open>\<open>n.toString(36)\<close> for a non-negative integer.\<close>

definition digits36 :: string where
  "digits36 = ''0123456789abcdefghijklmnopqrstuvwxyz''"

definition digit36 :: "nat \<Rightarrow> char" where
  "digit36 d = digits36 ! d"

function toString36 :: "nat \<Rightarrow> string" where
  "toString36 n = (if n < 36 then [digit36 n] else toString36 (n div 36) @ [digit36 (n mod 36)])"
  by pat_completeness auto
termination
  by (relation "measure id") auto

declare toString36.simps [simp del]

section \<open>The handlers\<close>

text \<open>
  \<open>generateToken\<close>:
  \<^verbatim>\<open>return Math.random().toString(36).substring(2) + Date.now().toString(36)\<close>
\<close>

definition generateToken :: "env \<Rightarrow> string" where
  "generateToken e = drop 2 (random36 e) @ toString36 (now e)"

text \<open>
  \<open>checkSession\<close>: the session object, with \<open>token\<close> set when authenticated.
  Each \<open>if (!x) return\<close> of the source is the \<open>None\<close> branch (\<open>null\<close> or
  \<open>undefined\<close>) together with the test for the empty string.
\<close>

record session =
  isAuthenticated :: bool
  token :: "string option"

definition not_authenticated :: session where
  "not_authenticated = \<lparr>isAuthenticated = False, token = None\<rparr>"

definition checkSession :: "request \<Rightarrow> kv \<Rightarrow> session" where
  "checkSession req s =
     (case cookie_header req of
        None \<Rightarrow> not_authenticated
      | Some cookieHeader \<Rightarrow>
          if cookieHeader = [] then not_authenticated
          else
            let cookies = map trim (split CHR '';'' cookieHeader) in
            (case find (\<lambda>c. startsWith c ''admin_session='') cookies of
               None \<Rightarrow> not_authenticated
             | Some sessionCookie \<Rightarrow>
                 if sessionCookie = [] then not_authenticated
                 else
                   (case index (split CHR ''='' sessionCookie) 1 of
                      None \<Rightarrow> not_authenticated
                    | Some tok \<Rightarrow>
                        if tok = [] then not_authenticated
                        else
                          let storedToken = NAVIGATION_STORE_get s ''admin_session'' in
                          if storedToken = Some tok
                          then \<lparr>isAuthenticated = True, token = Some tok\<rparr>
                          else not_authenticated)))"

text \<open>\<open>formData.get(name)\<close>: the first entry of that name, or \<open>null\<close>.\<close>

definition formData_get :: "(string \<times> jsval) list \<Rightarrow> string \<Rightarrow> jsval" where
  "formData_get fd name = (case map_of fd name of None \<Rightarrow> Val JNull | Some v \<Rightarrow> v)"

text \<open>
  A property read by destructuring, \<open>const { name } = b\<close>, for the names the worker
  reads (\<open>categories\<close>, \<open>sites\<close>, \<open>currentPassword\<close>, \<open>newPassword\<close> and
  \<open>confirmPassword\<close>, none of them a property of a string, a number, a boolean or an
  array): the own property of an object, whose keys are distinct after \<open>JSON.parse\<close>,
  and \<open>undefined\<close> otherwise. Destructuring \<open>null\<close> throws, which the handlers test
  first.
\<close>

definition property :: "json \<Rightarrow> string \<Rightarrow> jsval" where
  "property b name =
     (case b of
        JObj fs \<Rightarrow> (case map_of fs name of None \<Rightarrow> Undefined | Some v \<Rightarrow> Val v)
      | _ \<Rightarrow> Undefined)"

definition login_ok :: "string \<Rightarrow> response" where
  "login_ok t = Response (Result True None) [(''Set-Cookie'', session_cookie t)]"

text \<open>\<open>handleAuth\<close> (POST /admin/auth).\<close>

definition handleAuth :: "platform \<Rightarrow> env \<Rightarrow> request \<Rightarrow> kv \<Rightarrow> response \<times> kv" where
  "handleAuth P e req s =
     (case form_data req of
        None \<Rightarrow> (Response (Result False (Some ServerError)) json_headers, s)
      | Some formData \<Rightarrow>
          let inputPassword = formData_get formData ''password'';
              storedPassword = NAVIGATION_STORE_get s ''admin_password'' in
          if \<not> truthy storedPassword then
            (case NAVIGATION_STORE_put P ''admin_password'' inputPassword s of
               None \<Rightarrow> (Response (Result False (Some ServerError)) json_headers, s)
             | Some s1 \<Rightarrow>
                 let token = generateToken e in
                 (case NAVIGATION_STORE_put P ''admin_session'' (Val (JStr token)) s1 of
                    None \<Rightarrow> (Response (Result False (Some ServerError)) json_headers, s1)
                  | Some s2 \<Rightarrow> (login_ok token, s2)))
          else if strict_equals inputPassword (of_kv storedPassword) then
            (let token = generateToken e in
             case NAVIGATION_STORE_put P ''admin_session'' (Val (JStr token)) s of
               None \<Rightarrow> (Response (Result False (Some ServerError)) json_headers, s)
             | Some s1 \<Rightarrow> (login_ok token, s1))
          else (Response (Result False (Some WrongPassword)) json_headers, s))"

text \<open>\<open>handleLogout\<close> (POST /admin/logout).\<close>

definition handleLogout :: "request \<Rightarrow> kv \<Rightarrow> response \<times> kv" where
  "handleLogout req s =
     (Response (Result True None)
        [(''Content-Type'', ''application/json''),
         (''Set-Cookie'', ''admin_session=; Max-Age=0; Path=/; HttpOnly'')],
      NAVIGATION_STORE_delete ''admin_session'' s)"

text \<open>\<open>handleChangePassword\<close> (POST /admin/change-password).\<close>

definition handleChangePassword :: "platform \<Rightarrow> request \<Rightarrow> kv \<Rightarrow> response \<times> kv" where
  "handleChangePassword P req s =
     (case json_body req of
        None \<Rightarrow> (Response (Result False (Some ChangeFailed)) json_headers, s)
      | Some JNull \<Rightarrow> (Response (Result False (Some ChangeFailed)) json_headers, s)
      | Some b \<Rightarrow>
          let currentPassword = property b ''currentPassword'';
              newPassword = property b ''newPassword'';
              confirmPassword = property b ''confirmPassword'';
              storedPassword = NAVIGATION_STORE_get s ''admin_password'' in
          if \<not> strict_equals currentPassword (of_kv storedPassword) then
            (Response (Result False (Some CurrentPasswordWrong)) json_headers, s)
          else if \<not> strict_equals newPassword confirmPassword then
            (Response (Result False (Some PasswordsDiffer)) json_headers, s)
          else
            (case NAVIGATION_STORE_put P ''admin_password'' newPassword s of
               None \<Rightarrow> (Response (Result False (Some ChangeFailed)) json_headers, s)
             | Some s1 \<Rightarrow> (Response (Result True (Some PasswordChanged)) json_headers, s1)))"

text \<open>
  \<open>handleSaveData\<close> (POST /admin/save). The two writes are sequential: when the
  second is rejected the first has already happened.
\<close>

definition handleSaveData :: "platform \<Rightarrow> request \<Rightarrow> kv \<Rightarrow> response \<times> kv" where
  "handleSaveData P req s =
     (case json_body req of
        None \<Rightarrow> (Response (Result False (Some SaveFailed)) json_headers, s)
      | Some JNull \<Rightarrow> (Response (Result False (Some SaveFailed)) json_headers, s)
      | Some b \<Rightarrow>
          let categories = property b ''categories'';
              sites = property b ''sites'' in
          (case NAVIGATION_STORE_put P ''categories'' (stringify P categories) s of
             None \<Rightarrow> (Response (Result False (Some SaveFailed)) json_headers, s)
           | Some s1 \<Rightarrow>
               (case NAVIGATION_STORE_put P ''sites'' (stringify P sites) s1 of
                  None \<Rightarrow> (Response (Result False (Some SaveFailed)) json_headers, s1)
                | Some s2 \<Rightarrow> (Response (Result True None) json_headers, s2))))"

text \<open>
  \<open>handleGetData\<close> (GET /data). \<open>x ? JSON.parse(x) : []\<close> is \<open>parse_or_empty\<close>
  (\<open>x\<close> is falsy when \<open>null\<close> or empty);
  a throwing \<open>JSON.parse\<close> reaches the catch, which answers with both collections
  empty.
\<close>

definition parse_or_empty :: "platform \<Rightarrow> string option \<Rightarrow> json option" where
  "parse_or_empty P r =
     (case r of
        None \<Rightarrow> Some (JArr [])
      | Some x \<Rightarrow> if x = [] then Some (JArr []) else JSON_parse P x)"

definition handleGetData :: "platform \<Rightarrow> request \<Rightarrow> kv \<Rightarrow> response \<times> kv" where
  "handleGetData P req s =
     (let categories = NAVIGATION_STORE_get s ''categories'';
          sites = NAVIGATION_STORE_get s ''sites'' in
      case parse_or_empty P categories of
        None \<Rightarrow> (Response (Data (JArr []) (JArr [])) json_headers, s)
      | Some c \<Rightarrow>
          (case parse_or_empty P sites of
             None \<Rightarrow> (Response (Data (JArr []) (JArr [])) json_headers, s)
           | Some d \<Rightarrow>
               (Response (Data c d)
                  [(''Content-Type'', ''application/json''), (''Cache-Control'', ''no-cache'')],
                s)))"

text \<open>
  \<open>handleAdminRequest\<close>: the four POST routes are dispatched first; only what is left
  reaches \<open>checkSession\<close>.
\<close>

definition handleAdminRequest :: "platform \<Rightarrow> env \<Rightarrow> request \<Rightarrow> kv \<Rightarrow> response \<times> kv" where
  "handleAdminRequest P e req s =
     (let path = pathname req in
      if path = ''/admin/auth'' \<and> req_method req = ''POST'' then handleAuth P e req s
      else if path = ''/admin/save'' \<and> req_method req = ''POST'' then handleSaveData P req s
      else if path = ''/admin/change-password'' \<and> req_method req = ''POST''
        then handleChangePassword P req s
      else if path = ''/admin/logout'' \<and> req_method req = ''POST'' then handleLogout req s
      else
        let session = checkSession req s in
        if isAuthenticated session then
          (Response (AdminPage True)
             [(''Content-Type'', ''text/html; charset=UTF-8''),
              (''Set-Cookie'',
               session_cookie (case token session of None \<Rightarrow> ''undefined'' | Some t \<Rightarrow> t))],
           s)
        else (Response (AdminPage False) html_headers, s))"

text \<open>\<open>handleRequest\<close>: the entry point of the worker.\<close>

definition handleRequest :: "platform \<Rightarrow> env \<Rightarrow> request \<Rightarrow> kv \<Rightarrow> response \<times> kv" where
  "handleRequest P e req s =
     (let path = pathname req in
      if path = ''/data'' \<and> req_method req = ''GET'' then handleGetData P req s
      else if startsWith path ''/admin'' then handleAdminRequest P e req s
      else if path = ''/'' then (Response HomePage html_headers, s)
      else (Response HomePage html_headers, s))"

section \<open>Worked inputs\<close>

text \<open>
  The texts of the spec's example scenario with the values \<open>JSON.parse\<close> gives them
  (and \<open>JSON.stringify\<close> gives back): the empty array, the categories \<open>["Work"]\<close> and
  the one-site array.
\<close>

definition example_sites :: json where
  "example_sites =
     JArr [JObj [(''name'', JStr ''GitHub''), (''url'', JStr ''https://github.com''),
                 (''category'', JStr ''Work''), (''icon'', JStr [])]]"

definition example_sites_text :: string where
  \<open>example_sites_text =
     ''[{"name":"GitHub","url":"https://github.com","category":"Work","icon":""}]''\<close>

definition example_texts :: "(string \<times> json) list" where
  \<open>example_texts =
     [(''[]'', JArr []),
      (''["Work"]'', JArr [JStr ''Work'']),
      (example_sites_text, example_sites)]\<close>

text \<open>
  A platform for the worked inputs: \<open>JSON.parse\<close> and \<open>JSON.stringify\<close> on the texts
  and values above, every other text treated as malformed, and a store that rejects
  a value that is not a string.
\<close>

definition example_platform :: platform where
  "example_platform =
     \<lparr>JSON_parse = map_of example_texts,
      JSON_stringify =
        (\<lambda>v. case map_of (map (\<lambda>(t, j). (j, t)) example_texts) v of
               None \<Rightarrow> ''null'' | Some t \<Rightarrow> t),
      put_coerce = (\<lambda>v. None)\<rparr>"

definition example_env :: "string \<Rightarrow> env" where
  "example_env r = \<lparr>random36 = r, now = 1000\<rparr>"

text \<open>Requests: a login form, a JSON body sent to a path, and a page load.\<close>

definition login_request :: "string \<Rightarrow> request" where
  "login_request p =
     \<lparr>req_method = ''POST'', pathname = ''/admin/auth'', cookie_header = None,
      json_body = None, form_data = Some [(''password'', Val (JStr p))]\<rparr>"

definition json_request :: "string \<Rightarrow> json \<Rightarrow> request" where
  "json_request path b =
     \<lparr>req_method = ''POST'', pathname = path, cookie_header = None,
      json_body = Some b, form_data = None\<rparr>"

definition page_request :: "string \<Rightarrow> string option \<Rightarrow> request" where
  "page_request path c =
     \<lparr>req_method = ''GET'', pathname = path, cookie_header = c,
      json_body = None, form_data = None\<rparr>"

text \<open>The characters \<open>n.toString(36)\<close> is made of.\<close>

definition base36 :: "string \<Rightarrow> bool" where
  "base36 t = (\<forall>x\<in>set t. x \<in> set digits36)"

text \<open>A stored value that \<open>handleGetData\<close> cannot decode: absent, or rejected by \<open>JSON.parse\<close>.\<close>

definition undecodable :: "platform \<Rightarrow> string option \<Rightarrow> bool" where
  "undecodable P r = (case r of None \<Rightarrow> True | Some x \<Rightarrow> JSON_parse P x = None)"

section \<open>Properties of the string operations\<close>

lemma split_Nil: "dropWhile (\<lambda>x. x \<noteq> c) s = [] \<Longrightarrow> split c s = [s]"
  by (simp only: split.simps [of c s] list.case)

lemma split_Cons:
  "dropWhile (\<lambda>x. x \<noteq> c) s = y # rest \<Longrightarrow> split c s = takeWhile (\<lambda>x. x \<noteq> c) s # split c rest"
  by (simp only: split.simps [of c s] list.case)

lemma split_hd: "\<exists>rest. split c s = takeWhile (\<lambda>x. x \<noteq> c) s # rest"
proof (cases "dropWhile (\<lambda>x. x \<noteq> c) s")
  case Nil
  then have "\<forall>x\<in>set s. x \<noteq> c"
    by (simp add: dropWhile_eq_Nil_conv)
  then have tw: "takeWhile (\<lambda>x. x \<noteq> c) s = s"
    by (rule takeWhile_eq_all_conv [THEN iffD2])
  show ?thesis
    unfolding split_Nil [OF Nil] tw by simp
next
  case (Cons y rest)
  show ?thesis
    using split_Cons [OF Cons] by simp
qed

lemma split_no_sep: "c \<notin> set s \<Longrightarrow> split c s = [s]"
  by (rule split_Nil) auto

lemma split_at_sep:
  assumes "c \<notin> set a"
  shows "split c (a @ c # b) = a # split c b"
proof -
  have all: "\<And>x. x \<in> set a \<Longrightarrow> x \<noteq> c"
    using assms by blast
  have d: "dropWhile (\<lambda>x. x \<noteq> c) (a @ c # b) = c # b"
    using all by simp
  have t: "takeWhile (\<lambda>x. x \<noteq> c) (a @ c # b) = a"
    using all by simp
  show ?thesis
    using split_Cons [OF d] by (simp only: t)
qed

lemma index_split_1:
  assumes "c \<notin> set a"
  shows "index (split c (a @ c # b)) 1 = Some (takeWhile (\<lambda>x. x \<noteq> c) b)"
proof -
  obtain rest where "split c b = takeWhile (\<lambda>x. x \<noteq> c) b # rest"
    using split_hd by blast
  then show ?thesis
    using assms by (simp add: split_at_sep index_def)
qed

lemma trim_id:
  assumes "s \<noteq> []" "\<not> is_space (hd s)" "\<not> is_space (last s)"
  shows "trim s = s"
proof -
  have "dropWhile is_space s = s"
    using assms(1,2) by (cases s) simp_all
  moreover have "dropWhile is_space (rev s) = rev s"
    using assms(1,3) by (cases "rev s") (simp_all add: last_rev [symmetric] hd_rev)
  ultimately show ?thesis
    by (simp add: trim_def)
qed


lemma digit36_in: "d < 36 \<Longrightarrow> digit36 d \<in> set digits36"
  unfolding digit36_def by (rule nth_mem) (simp add: digits36_def)

lemma base36_append: "base36 (a @ b) = (base36 a \<and> base36 b)"
  by (auto simp: base36_def)

lemma toString36_base36: "base36 (toString36 n)"
proof (induction n rule: toString36.induct)
  case (1 n)
  show ?case
  proof (cases "n < 36")
    case True
    then show ?thesis
      using digit36_in [of n] by (simp add: toString36.simps [of n] base36_def)
  next
    case False
    then have "base36 (toString36 (n div 36))"
      using "1" by simp
    moreover have "digit36 (n mod 36) \<in> set digits36"
      by (rule digit36_in) simp
    ultimately show ?thesis
      using False by (simp add: toString36.simps [of n] base36_append) (simp add: base36_def)
  qed
qed

lemma toString36_nonempty: "toString36 n \<noteq> []"
  by (simp add: toString36.simps [of n])

lemma semicolon_not_base36: "CHR '';'' \<notin> set digits36"
  by (simp add: digits36_def)

lemma equals_not_base36: "CHR ''='' \<notin> set digits36"
  by (simp add: digits36_def)

lemma space_not_base36: "\<forall>x\<in>set digits36. \<not> is_space x"
  by (simp add: is_space_def digits36_def)

lemma base36_plain:
  assumes "base36 t" "x \<in> set t"
  shows "x \<noteq> CHR '';''" "x \<noteq> CHR ''=''" "\<not> is_space x"
proof -
  have m: "x \<in> set digits36"
    using assms unfolding base36_def by blast
  show "x \<noteq> CHR '';''" using m semicolon_not_base36 by blast
  show "x \<noteq> CHR ''=''" using m equals_not_base36 by blast
  show "\<not> is_space x" using m space_not_base36 by blast
qed

lemma strict_equals_string: "strict_equals v (Val (JStr x)) = (v = Val (JStr x))"
proof (cases v)
  case (Val j)
  then show ?thesis by (cases j) simp_all
qed simp_all

lemma strict_equals_null: "strict_equals v (Val JNull) = (v = Val JNull)"
proof (cases v)
  case (Val j)
  then show ?thesis by (cases j) simp_all
qed simp_all

lemma strict_equals_imp_eq: "strict_equals a b \<Longrightarrow> a = b"
  by (induction a b rule: strict_equals.induct) simp_all

lemma put_string: "NAVIGATION_STORE_put P k (Val (JStr x)) s = Some (s(k \<mapsto> x))"
  by (simp add: NAVIGATION_STORE_put_def)

lemma put_other_key:
  "NAVIGATION_STORE_put P k v s = Some s' \<Longrightarrow> k' \<noteq> k \<Longrightarrow> s' k' = s k'"
  by (auto simp: NAVIGATION_STORE_put_def split: jsval.splits json.splits option.splits)

lemma generateToken_base36:
  "base36 (drop 2 (random36 e)) \<Longrightarrow> base36 (generateToken e)"
  using toString36_base36 [of "now e"] by (simp add: generateToken_def base36_append)

lemma generateToken_nonempty: "generateToken e \<noteq> []"
  by (simp add: generateToken_def toString36_nonempty)

lemma checkSession_base36_cookie:
  assumes t: "base36 t" "t \<noteq> []" and c: "cookie_header req = Some (''admin_session='' @ t)"
  shows "checkSession req s =
           (if s ''admin_session'' = Some t then \<lparr>isAuthenticated = True, token = Some t\<rparr>
            else not_authenticated)"
proof -
  define h where "h = ''admin_session='' @ t"
  have c': "cookie_header req = Some h"
    using c by (simp add: h_def)
  have hne: "h \<noteq> []"
    by (simp add: h_def)
  have semi: "CHR '';'' \<notin> set h"
    using base36_plain(1) [OF t(1)] by (auto simp: h_def)
  have "\<not> is_space (last h)"
    using base36_plain(3) [OF t(1), of "last t"] t(2) by (simp add: h_def)
  moreover have "\<not> is_space (hd h)"
    by (simp add: is_space_def h_def)
  ultimately have "trim h = h"
    using hne by (intro trim_id)
  then have cookies: "map trim (split CHR '';'' h) = [h]"
    by (simp only: split_no_sep [OF semi] list.map)
  have eq: "CHR ''='' \<notin> set t"
    using base36_plain(2) [OF t(1)] by blast
  have "index (split CHR ''='' (''admin_session'' @ CHR ''='' # t)) 1
          = Some (takeWhile (\<lambda>x. x \<noteq> CHR ''='') t)"
    by (rule index_split_1) simp
  moreover have "takeWhile (\<lambda>x. x \<noteq> CHR ''='') t = t"
    using eq by (intro takeWhile_eq_all_conv [THEN iffD2]) blast
  ultimately have tok: "index (split CHR ''='' h) (Suc 0) = Some t"
    by (simp add: h_def)
  have found: "startsWith h ''admin_session=''"
    by (simp add: startsWith_def h_def)
  show ?thesis
    using t(2) hne
    by (simp add: checkSession_def c' cookies found tok NAVIGATION_STORE_get_def)
qed

section \<open>The router and the save handler\<close>

text \<open>
  C1. The claim: a request to POST /admin/save without a valid session token never
  overwrites the stored \<open>categories\<close> and \<open>sites\<close>, because the session gate runs
  before the data handler. The worker dispatches the route before \<open>checkSession\<close>:
  a request with no Cookie header at all, which \<open>checkSession\<close> does not authenticate,
  has both keys overwritten on any store, and is answered with success.
\<close>

theorem save_without_session:
  "\<not> isAuthenticated
       (checkSession (json_request ''/admin/save''
          (JObj [(''categories'', JArr []), (''sites'', JArr [])])) s)
   \<and> handleRequest P e
       (json_request ''/admin/save'' (JObj [(''categories'', JArr []), (''sites'', JArr [])])) s
     = (Response (Result True None) json_headers,
        s(''categories'' \<mapsto> JSON_stringify P (JArr []),
          ''sites'' \<mapsto> JSON_stringify P (JArr [])))"
  by (simp add: handleRequest_def handleAdminRequest_def handleSaveData_def startsWith_def
      json_request_def checkSession_def not_authenticated_def property_def stringify_def
      put_string Let_def)

section \<open>Login\<close>

text \<open>
  C2, as amended. For every non-empty stored password and every submitted password
  \<open>p\<close>, the login succeeds exactly when \<open>p\<close> equals the stored password; on success
  only the session token is written, and on mismatch the answer is the
  incorrect-password message and the store is unchanged.
\<close>

theorem login_correct:
  assumes "s ''admin_password'' = Some pw"
    and "pw \<noteq> []"
    and "form_data req = Some fd"
    and "formData_get fd ''password'' = Val (JStr p)"
  shows "(body (fst (handleAuth P e req s)) = Result True None \<longleftrightarrow> p = pw)
         \<and> (p = pw \<longrightarrow> handleAuth P e req s =
               (login_ok (generateToken e), s(''admin_session'' \<mapsto> generateToken e)))
         \<and> (p \<noteq> pw \<longrightarrow> handleAuth P e req s =
               (Response (Result False (Some WrongPassword)) json_headers, s))"
  using assms
  by (simp add: handleAuth_def NAVIGATION_STORE_get_def put_string truthy_def login_ok_def Let_def
      Response_def of_kv_def)

text \<open>
  The theorem at the spec's scenario: with \<open>abc123\<close> stored, \<open>wrong\<close> is refused
  and leaves the store as it was, and \<open>abc123\<close> is accepted.
\<close>

theorem login_correct_witness:
  "handleAuth example_platform (example_env ''0.x'') (login_request ''wrong'')
       [''admin_password'' \<mapsto> ''abc123'']
     = (Response (Result False (Some WrongPassword)) json_headers,
        [''admin_password'' \<mapsto> ''abc123''])
   \<and> body (fst (handleAuth example_platform (example_env ''0.x'') (login_request ''abc123'')
       [''admin_password'' \<mapsto> ''abc123''])) = Result True None"
  using login_correct [of "[''admin_password'' \<mapsto> ''abc123'']" "''abc123''"
      "login_request ''wrong''" "[(''password'', Val (JStr ''wrong''))]" "''wrong''"
      example_platform "example_env ''0.x''"]
    login_correct [of "[''admin_password'' \<mapsto> ''abc123'']" "''abc123''"
      "login_request ''abc123''" "[(''password'', Val (JStr ''abc123''))]" "''abc123''"
      example_platform "example_env ''0.x''"]
  by (simp add: login_request_def formData_get_def login_ok_def Response_def)

text \<open>
  C2 as stated fails for the empty stored password, which \<open>!storedPassword\<close> takes for
  no password at all. From the empty store, a first login with the empty password stores
  it; a second login with another password then succeeds.
\<close>

theorem login_empty_password_counterexample:
  "snd (handleAuth example_platform (example_env ''0.x'') (login_request []) Map.empty)
       ''admin_password'' = Some []
   \<and> body (fst (handleAuth example_platform (example_env ''0.y'') (login_request ''guess'')
        (snd (handleAuth example_platform (example_env ''0.x'') (login_request []) Map.empty))))
       = Result True None
   \<and> ''guess'' \<noteq> []"
  by (simp add: handleAuth_def NAVIGATION_STORE_get_def put_string truthy_def login_ok_def Let_def
      Response_def login_request_def formData_get_def)

text \<open>
  C4. On every store with no \<open>admin_password\<close> key, a login with any submitted
  password \<open>p\<close> stores \<open>p\<close> as the admin password, stores the newly generated
  session token and answers \<open>success: true\<close>.
\<close>

theorem bootstrap_login:
  assumes "s ''admin_password'' = None"
    and "form_data req = Some fd"
    and "formData_get fd ''password'' = Val (JStr p)"
  shows "handleAuth P e req s =
           (login_ok (generateToken e),
            s(''admin_password'' \<mapsto> p, ''admin_session'' \<mapsto> generateToken e))
         \<and> body (login_ok (generateToken e)) = Result True None"
  using assms
  by (simp add: handleAuth_def NAVIGATION_STORE_get_def put_string truthy_def login_ok_def Let_def
      Response_def)

text \<open>
  The theorem at the spec's scenario: the empty store and the password \<open>abc123\<close>.
\<close>

theorem bootstrap_login_witness:
  "handleAuth example_platform (example_env ''0.4fzyo82mvyr'') (login_request ''abc123'') Map.empty =
     (login_ok ''4fzyo82mvyrrs'',
      [''admin_password'' \<mapsto> ''abc123'', ''admin_session'' \<mapsto> ''4fzyo82mvyrrs''])"
proof -
  have tok: "generateToken (example_env ''0.4fzyo82mvyr'') = ''4fzyo82mvyrrs''"
    by (simp add: generateToken_def example_env_def toString36.simps digit36_def digits36_def)
  show ?thesis
    using bootstrap_login [of Map.empty "login_request ''abc123''"
        "[(''password'', Val (JStr ''abc123''))]" "''abc123''" example_platform
        "example_env ''0.4fzyo82mvyr''"]
    by (simp add: tok login_request_def formData_get_def)
qed

section \<open>Sessions\<close>

lemma handleAuth_success_token:
  assumes "handleAuth P e r s = (a, s')" "body a = Result True None"
  shows "s' ''admin_session'' = Some (generateToken e)"
  using assms
  by (auto simp: handleAuth_def Let_def put_string Response_def split: option.splits if_splits)

text \<open>
  C5. After two successive successful logins that store the tokens \<open>t1\<close> then
  \<open>t2\<close>, with \<open>t1 \<noteq> t2\<close>, a request whose cookie carries \<open>t1\<close> is not
  authenticated and a request whose cookie carries \<open>t2\<close> is. The tokens are those
  \<open>generateToken\<close> makes from base-36 digits, as \<open>Math.random().toString(36)\<close>
  supplies after its first two characters.
\<close>

theorem single_active_session:
  assumes "handleAuth P e1 r1 s0 = (a1, s1)" and "body a1 = Result True None"
    and "handleAuth P e2 r2 s1 = (a2, s2)" and "body a2 = Result True None"
    and "generateToken e1 \<noteq> generateToken e2"
    and "base36 (drop 2 (random36 e1))" and "base36 (drop 2 (random36 e2))"
  shows "s1 ''admin_session'' = Some (generateToken e1)
         \<and> s2 ''admin_session'' = Some (generateToken e2)
         \<and> \<not> isAuthenticated (checkSession
               (page_request ''/admin'' (Some (''admin_session='' @ generateToken e1))) s2)
         \<and> isAuthenticated (checkSession
               (page_request ''/admin'' (Some (''admin_session='' @ generateToken e2))) s2)"
proof -
  have s1: "s1 ''admin_session'' = Some (generateToken e1)"
    using assms(1,2) by (rule handleAuth_success_token)
  have s2: "s2 ''admin_session'' = Some (generateToken e2)"
    using assms(3,4) by (rule handleAuth_success_token)
  have c: "cookie_header (page_request ''/admin'' (Some (''admin_session='' @ t)))
             = Some (''admin_session='' @ t)" for t
    by (simp add: page_request_def)
  have cs: "checkSession (page_request ''/admin'' (Some (''admin_session='' @ t))) s2 =
              (if s2 ''admin_session'' = Some t then \<lparr>isAuthenticated = True, token = Some t\<rparr>
               else not_authenticated)"
    if "base36 t" "t \<noteq> []" for t
    using that c by (rule checkSession_base36_cookie)
  have old: "\<not> isAuthenticated (checkSession
               (page_request ''/admin'' (Some (''admin_session='' @ generateToken e1))) s2)"
    unfolding cs [OF generateToken_base36 [OF assms(6)] generateToken_nonempty]
    using assms(5) s2 by (simp add: not_authenticated_def)
  have new: "isAuthenticated (checkSession
               (page_request ''/admin'' (Some (''admin_session='' @ generateToken e2))) s2)"
    unfolding cs [OF generateToken_base36 [OF assms(7)] generateToken_nonempty]
    using s2 by simp
  show ?thesis
    using s1 s2 old new by simp
qed

text \<open>
  The theorem at two logins on the empty store whose tokens are \<open>ars\<close> and \<open>brs\<close>.
\<close>

theorem single_active_session_witness:
  "\<not> isAuthenticated (checkSession (page_request ''/admin'' (Some ''admin_session=ars'')) 
        [''admin_password'' \<mapsto> ''abc123'', ''admin_session'' \<mapsto> ''brs''])
   \<and> isAuthenticated (checkSession (page_request ''/admin'' (Some ''admin_session=brs''))
        [''admin_password'' \<mapsto> ''abc123'', ''admin_session'' \<mapsto> ''brs''])"
proof -
  have t1: "generateToken (example_env ''0.a'') = ''ars''"
    by (simp add: generateToken_def example_env_def toString36.simps digit36_def digits36_def)
  have t2: "generateToken (example_env ''0.b'') = ''brs''"
    by (simp add: generateToken_def example_env_def toString36.simps digit36_def digits36_def)
  have l1: "handleAuth example_platform (example_env ''0.a'') (login_request ''abc123'') Map.empty
      = (login_ok ''ars'', [''admin_password'' \<mapsto> ''abc123'', ''admin_session'' \<mapsto> ''ars''])"
    by (simp add: handleAuth_def NAVIGATION_STORE_get_def put_string truthy_def Let_def
        login_request_def formData_get_def t1)
  have l2: "handleAuth example_platform (example_env ''0.b'') (login_request ''abc123'')
        [''admin_password'' \<mapsto> ''abc123'', ''admin_session'' \<mapsto> ''ars'']
      = (login_ok ''brs'', [''admin_password'' \<mapsto> ''abc123'', ''admin_session'' \<mapsto> ''brs''])"
    by (simp add: handleAuth_def NAVIGATION_STORE_get_def put_string truthy_def Let_def
        login_request_def formData_get_def t2 of_kv_def)
  have b1: "base36 (drop 2 (random36 (example_env ''0.a'')))"
    by (simp add: base36_def example_env_def digits36_def)
  have b2: "base36 (drop 2 (random36 (example_env ''0.b'')))"
    by (simp add: base36_def example_env_def digits36_def)
  have ok: "body (login_ok t) = Result True None" for t
    by (simp add: login_ok_def Response_def)
  have ne: "generateToken (example_env ''0.a'') \<noteq> generateToken (example_env ''0.b'')"
    by (simp add: t1 t2)
  show ?thesis
    using single_active_session [OF l1 ok l2 ok ne b1 b2] by (simp add: t1 t2)
qed

lemma checkSession_found:
  assumes h: "cookie_header req = Some h"
    and f: "find (\<lambda>c. startsWith c ''admin_session='') (map trim (split CHR '';'' h))
              = Some (''admin_session='' @ v)"
  shows "checkSession req s =
           (if takeWhile (\<lambda>x. x \<noteq> CHR ''='') v \<noteq> []
               \<and> s ''admin_session'' = Some (takeWhile (\<lambda>x. x \<noteq> CHR ''='') v)
            then \<lparr>isAuthenticated = True, token = Some (takeWhile (\<lambda>x. x \<noteq> CHR ''='') v)\<rparr>
            else not_authenticated)"
proof -
  define c where "c = ''admin_session='' @ v"
  have f': "find (\<lambda>c. startsWith c ''admin_session='') (map trim (split CHR '';'' h)) = Some c"
    using f by (simp add: c_def)
  have cne: "c \<noteq> []"
    by (simp add: c_def)
  have hne: "h \<noteq> []"
  proof
    assume "h = []"
    then have "map trim (split CHR '';'' h) = [[]]"
      by (simp add: split_no_sep trim_def)
    then show False
      using f' by (simp add: startsWith_def)
  qed
  have "index (split CHR ''='' (''admin_session'' @ CHR ''='' # v)) 1
          = Some (takeWhile (\<lambda>x. x \<noteq> CHR ''='') v)"
    by (rule index_split_1) simp
  then have tok: "index (split CHR ''='' c) (Suc 0) = Some (takeWhile (\<lambda>x. x \<noteq> CHR ''='') v)"
    by (simp add: c_def)
  show ?thesis
    using hne cne
    by (simp add: checkSession_def h f' tok NAVIGATION_STORE_get_def)
qed

text \<open>
  C8, as amended. \<open>checkSession\<close> answers not-authenticated when the Cookie header is
  absent and when no cookie starts with \<open>admin_session=\<close>. Otherwise, with \<open>v\<close> the
  text after \<open>admin_session=\<close> in the first such cookie, it is authenticated exactly
  when the part of \<open>v\<close> before its first \<open>=\<close> is non-empty and equals the stored
  token; for a value \<open>v\<close> without \<open>=\<close> that is exactly when \<open>v\<close> is non-empty and
  equals the stored token. The function reads the store and returns no store: it
  writes nothing.
\<close>

theorem checkSession_contract:
  "(cookie_header req = None \<longrightarrow> \<not> isAuthenticated (checkSession req s))
   \<and> (cookie_header req = Some h
        \<and> find (\<lambda>c. startsWith c ''admin_session='') (map trim (split CHR '';'' h)) = None
      \<longrightarrow> \<not> isAuthenticated (checkSession req s))
   \<and> (cookie_header req = Some h
        \<and> find (\<lambda>c. startsWith c ''admin_session='') (map trim (split CHR '';'' h))
            = Some (''admin_session='' @ v)
      \<longrightarrow> (isAuthenticated (checkSession req s) \<longleftrightarrow>
             takeWhile (\<lambda>x. x \<noteq> CHR ''='') v \<noteq> []
             \<and> s ''admin_session'' = Some (takeWhile (\<lambda>x. x \<noteq> CHR ''='') v))
          \<and> (CHR ''='' \<notin> set v \<longrightarrow>
               (isAuthenticated (checkSession req s) \<longleftrightarrow>
                  v \<noteq> [] \<and> s ''admin_session'' = Some v)))"
proof (intro conjI impI)
  assume "cookie_header req = None"
  then show "\<not> isAuthenticated (checkSession req s)"
    by (simp add: checkSession_def not_authenticated_def)
next
  assume "cookie_header req = Some h
        \<and> find (\<lambda>c. startsWith c ''admin_session='') (map trim (split CHR '';'' h)) = None"
  then show "\<not> isAuthenticated (checkSession req s)"
    by (simp add: checkSession_def not_authenticated_def)
next
  assume a: "cookie_header req = Some h
        \<and> find (\<lambda>c. startsWith c ''admin_session='') (map trim (split CHR '';'' h))
            = Some (''admin_session='' @ v)"
  show g: "isAuthenticated (checkSession req s) \<longleftrightarrow>
             takeWhile (\<lambda>x. x \<noteq> CHR ''='') v \<noteq> []
             \<and> s ''admin_session'' = Some (takeWhile (\<lambda>x. x \<noteq> CHR ''='') v)"
    using a by (simp add: checkSession_found [of req h v s] not_authenticated_def)
  assume "CHR ''='' \<notin> set v"
  then have tw: "takeWhile (\<lambda>x. x \<noteq> CHR ''='') v = v"
    by (intro takeWhile_eq_all_conv [THEN iffD2]) blast
  show "isAuthenticated (checkSession req s) \<longleftrightarrow> v \<noteq> [] \<and> s ''admin_session'' = Some v"
    by (simp only: g tw)
qed

text \<open>
  The theorem at four requests: no Cookie header, no session cookie, the stored token,
  and a session cookie with no value.
\<close>

theorem checkSession_contract_witness:
  "\<not> isAuthenticated (checkSession (page_request ''/admin'' None) [''admin_session'' \<mapsto> ''abc''])
   \<and> \<not> isAuthenticated (checkSession (page_request ''/admin'' (Some ''theme=dark; lang=zh''))
          [''admin_session'' \<mapsto> ''abc''])
   \<and> isAuthenticated (checkSession (page_request ''/admin'' (Some ''theme=dark; admin_session=abc''))
          [''admin_session'' \<mapsto> ''abc''])
   \<and> \<not> isAuthenticated (checkSession (page_request ''/admin'' (Some ''theme=dark; admin_session=''))
          [''admin_session'' \<mapsto> ''abc''])"
  using checkSession_contract [of "page_request ''/admin'' None" "[''admin_session'' \<mapsto> ''abc'']"]
    checkSession_contract [of "page_request ''/admin'' (Some ''theme=dark; lang=zh'')"
      "[''admin_session'' \<mapsto> ''abc'']" "''theme=dark; lang=zh''"]
    checkSession_contract [of "page_request ''/admin'' (Some ''theme=dark; admin_session=abc'')"
      "[''admin_session'' \<mapsto> ''abc'']" "''theme=dark; admin_session=abc''" "''abc''"]
    checkSession_contract [of "page_request ''/admin'' (Some ''theme=dark; admin_session='')"
      "[''admin_session'' \<mapsto> ''abc'']" "''theme=dark; admin_session=''" "[]"]
  by (simp add: page_request_def split.simps trim_def is_space_def startsWith_def)

text \<open>
  C8 as stated fails for a cookie value that contains \<open>=\<close>: \<open>split('=')[1]\<close> keeps
  the value up to its first \<open>=\<close> only, so the value \<open>abc=zzz\<close> is authenticated
  against the stored token \<open>abc\<close>, from which it differs.
\<close>

theorem checkSession_equals_counterexample:
  "isAuthenticated (checkSession (page_request ''/admin'' (Some ''admin_session=abc=zzz''))
       [''admin_session'' \<mapsto> ''abc''])
   \<and> ''abc=zzz'' \<noteq> ''abc''"
  by (simp add: checkSession_def page_request_def split.simps trim_def is_space_def startsWith_def
      index_def NAVIGATION_STORE_get_def)

section \<open>Reading and saving the data\<close>

text \<open>
  C3. For all categories \<open>C\<close> and sites \<open>S\<close>, saving them and then reading the
  data returns exactly \<open>C\<close> and \<open>S\<close>. The two JSON functions are the platform's:
  the theorem holds for every platform on which \<open>JSON.parse\<close> inverts
  \<open>JSON.stringify\<close> at \<open>C\<close> and at \<open>S\<close> and the texts are not empty, as is the
  case for arrays of strings and of site objects.
\<close>

theorem save_round_trip:
  assumes "json_body req = Some (JObj fs)"
    and "map_of fs ''categories'' = Some C"
    and "map_of fs ''sites'' = Some S"
    and "JSON_parse P (JSON_stringify P C) = Some C"
    and "JSON_parse P (JSON_stringify P S) = Some S"
    and "JSON_stringify P C \<noteq> []"
    and "JSON_stringify P S \<noteq> []"
  shows "handleSaveData P req s =
           (Response (Result True None) json_headers,
            s(''categories'' \<mapsto> JSON_stringify P C, ''sites'' \<mapsto> JSON_stringify P S))
         \<and> fst (handleGetData P req' (snd (handleSaveData P req s))) =
             Response (Data C S)
               [(''Content-Type'', ''application/json''), (''Cache-Control'', ''no-cache'')]"
proof -
  have save: "handleSaveData P req s =
           (Response (Result True None) json_headers,
            s(''categories'' \<mapsto> JSON_stringify P C, ''sites'' \<mapsto> JSON_stringify P S))"
    using assms(1-3)
    by (simp add: handleSaveData_def property_def stringify_def put_string Let_def)
  show ?thesis
    using assms(4-7)
    by (simp add: save handleGetData_def NAVIGATION_STORE_get_def parse_or_empty_def Let_def)
qed

text \<open>
  The theorem at the spec's scenario: the categories \<open>["Work"]\<close> and the GitHub site,
  saved to the empty store.
\<close>

theorem save_round_trip_witness:
  "fst (handleGetData example_platform (page_request ''/data'' None)
     (snd (handleSaveData example_platform
        (json_request ''/admin/save''
           (JObj [(''categories'', JArr [JStr ''Work'']), (''sites'', example_sites)]))
        Map.empty)))
   = Response (Data (JArr [JStr ''Work'']) example_sites)
       [(''Content-Type'', ''application/json''), (''Cache-Control'', ''no-cache'')]"
proof -
  have b: "json_body (json_request ''/admin/save''
           (JObj [(''categories'', JArr [JStr ''Work'']), (''sites'', example_sites)]))
         = Some (JObj [(''categories'', JArr [JStr ''Work'']), (''sites'', example_sites)])"
    by (simp add: json_request_def)
  have c: "map_of [(''categories'', JArr [JStr ''Work'']), (''sites'', example_sites)]
             ''categories'' = Some (JArr [JStr ''Work''])"
    by simp
  have d: "map_of [(''categories'', JArr [JStr ''Work'']), (''sites'', example_sites)]
             ''sites'' = Some example_sites"
    by simp
  have sc: \<open>JSON_stringify example_platform (JArr [JStr ''Work'']) = ''["Work"]''\<close>
    by (simp add: example_platform_def example_texts_def)
  have ss: "JSON_stringify example_platform example_sites = example_sites_text"
    by (simp add: example_platform_def example_texts_def example_sites_def)
  have pc: "JSON_parse example_platform (JSON_stringify example_platform (JArr [JStr ''Work'']))
              = Some (JArr [JStr ''Work''])"
    unfolding sc by (simp add: example_platform_def example_texts_def)
  have ps: "JSON_parse example_platform (JSON_stringify example_platform example_sites)
              = Some example_sites"
    unfolding ss by (simp add: example_platform_def example_texts_def example_sites_text_def)
  have nc: "JSON_stringify example_platform (JArr [JStr ''Work'']) \<noteq> []"
    unfolding sc by simp
  have ns: "JSON_stringify example_platform example_sites \<noteq> []"
    unfolding ss by (simp add: example_sites_text_def)
  show ?thesis
    by (rule conjunct2 [OF save_round_trip [OF b c d pc ps nc ns]])
qed

lemma parse_or_empty_undecodable:
  "undecodable P r \<Longrightarrow> parse_or_empty P r = None \<or> parse_or_empty P r = Some (JArr [])"
  by (auto simp: undecodable_def parse_or_empty_def split: option.splits)

text \<open>
  C6. \<open>handleGetData\<close> always returns a response, with status 200 and a data body,
  and leaves the store unchanged. For each of the two keys, when the key is absent or
  its text is rejected by \<open>JSON.parse\<close>, that collection is the empty array in the
  response; when both are, the body is \<open>{categories: [], sites: []}\<close>.
\<close>

theorem getData_fail_soft:
  "status (fst (handleGetData P req s)) = 200
   \<and> snd (handleGetData P req s) = s
   \<and> (\<exists>c d. body (fst (handleGetData P req s)) = Data c d
         \<and> (undecodable P (s ''categories'') \<longrightarrow> c = JArr [])
         \<and> (undecodable P (s ''sites'') \<longrightarrow> d = JArr []))
   \<and> (undecodable P (s ''categories'') \<and> undecodable P (s ''sites'') \<longrightarrow>
        body (fst (handleGetData P req s)) = Data (JArr []) (JArr []))"
  using parse_or_empty_undecodable [of P "s ''categories''"]
    parse_or_empty_undecodable [of P "s ''sites''"]
  by (auto simp: handleGetData_def NAVIGATION_STORE_get_def Response_def Let_def
      split: option.splits)

text \<open>
  The theorem at a store whose \<open>sites\<close> text is malformed, and at the empty store.
\<close>

theorem getData_fail_soft_witness:
  \<open>undecodable example_platform ([''categories'' \<mapsto> ''["Work"]'', ''sites'' \<mapsto> ''{oops''] ''sites'')
   \<and> \<not> undecodable example_platform
         ([''categories'' \<mapsto> ''["Work"]'', ''sites'' \<mapsto> ''{oops''] ''categories'')
   \<and> fst (handleGetData example_platform (page_request ''/data'' None)
         [''categories'' \<mapsto> ''["Work"]'', ''sites'' \<mapsto> ''{oops''])
       = Response (Data (JArr []) (JArr [])) json_headers
   \<and> undecodable example_platform (Map.empty ''categories'')
   \<and> body (fst (handleGetData example_platform (page_request ''/data'' None) Map.empty))
       = Data (JArr []) (JArr [])\<close>
  using getData_fail_soft [of example_platform "page_request ''/data'' None" Map.empty]
  by (simp add: undecodable_def example_platform_def example_texts_def example_sites_text_def
      handleGetData_def NAVIGATION_STORE_get_def parse_or_empty_def Response_def)

section \<open>Changing the password\<close>

text \<open>
  C7. For every stored password, a password change whose current password is not the
  stored one, or whose new password and confirmation differ, fails and leaves the
  store, and so the stored password, unchanged. The first check answers with the
  current-password message, the second with the mismatch message.
\<close>

theorem changePassword_guard:
  assumes "s ''admin_password'' = Some pw"
    and "json_body req = Some b"
    and "property b ''currentPassword'' \<noteq> Val (JStr pw)
         \<or> property b ''newPassword'' \<noteq> property b ''confirmPassword''"
  shows "snd (handleChangePassword P req s) = s
         \<and> (\<exists>m. fst (handleChangePassword P req s) = Response (Result False (Some m)) json_headers)
         \<and> (b \<noteq> JNull \<and> property b ''currentPassword'' \<noteq> Val (JStr pw) \<longrightarrow>
              fst (handleChangePassword P req s)
                = Response (Result False (Some CurrentPasswordWrong)) json_headers)
         \<and> (property b ''currentPassword'' = Val (JStr pw) \<longrightarrow>
              fst (handleChangePassword P req s)
                = Response (Result False (Some PasswordsDiffer)) json_headers)"
proof -
  have ne: "\<not> strict_equals (property b ''newPassword'') (property b ''confirmPassword'')"
    if "property b ''currentPassword'' = Val (JStr pw)"
    using that assms(3) strict_equals_imp_eq by blast
  show ?thesis
  proof (cases "b = JNull")
    case True
    then show ?thesis
      using assms(2) by (auto simp: handleChangePassword_def property_def)
  next
    case False
    then have unfold: "handleChangePassword P req s =
        (if \<not> strict_equals (property b ''currentPassword'') (Val (JStr pw)) then
           (Response (Result False (Some CurrentPasswordWrong)) json_headers, s)
         else if \<not> strict_equals (property b ''newPassword'') (property b ''confirmPassword'') then
           (Response (Result False (Some PasswordsDiffer)) json_headers, s)
         else
           (case NAVIGATION_STORE_put P ''admin_password'' (property b ''newPassword'') s of
              None \<Rightarrow> (Response (Result False (Some ChangeFailed)) json_headers, s)
            | Some s1 \<Rightarrow> (Response (Result True (Some PasswordChanged)) json_headers, s1)))"
      using assms(1,2)
      by (cases b) (simp_all add: handleChangePassword_def NAVIGATION_STORE_get_def of_kv_def Let_def)
    show ?thesis
      using ne False by (auto simp: unfold strict_equals_string)
  qed
qed

text \<open>
  The theorem at a wrong current password and at a confirmation that differs.
\<close>

theorem changePassword_guard_witness:
  "handleChangePassword example_platform
     (json_request ''/admin/change-password''
        (JObj [(''currentPassword'', JStr ''wrong''), (''newPassword'', JStr ''new123''),
               (''confirmPassword'', JStr ''new123'')]))
     [''admin_password'' \<mapsto> ''abc123'']
   = (Response (Result False (Some CurrentPasswordWrong)) json_headers,
      [''admin_password'' \<mapsto> ''abc123''])
   \<and> handleChangePassword example_platform
     (json_request ''/admin/change-password''
        (JObj [(''currentPassword'', JStr ''abc123''), (''newPassword'', JStr ''new123''),
               (''confirmPassword'', JStr ''new124'')]))
     [''admin_password'' \<mapsto> ''abc123'']
   = (Response (Result False (Some PasswordsDiffer)) json_headers,
      [''admin_password'' \<mapsto> ''abc123''])"
  using changePassword_guard [of "[''admin_password'' \<mapsto> ''abc123'']" "''abc123''"
      "json_request ''/admin/change-password''
        (JObj [(''currentPassword'', JStr ''wrong''), (''newPassword'', JStr ''new123''),
               (''confirmPassword'', JStr ''new123'')])"
      "JObj [(''currentPassword'', JStr ''wrong''), (''newPassword'', JStr ''new123''),
               (''confirmPassword'', JStr ''new123'')]" example_platform]
    changePassword_guard [of "[''admin_password'' \<mapsto> ''abc123'']" "''abc123''"
      "json_request ''/admin/change-password''
        (JObj [(''currentPassword'', JStr ''abc123''), (''newPassword'', JStr ''new123''),
               (''confirmPassword'', JStr ''new124'')])"
      "JObj [(''currentPassword'', JStr ''abc123''), (''newPassword'', JStr ''new123''),
               (''confirmPassword'', JStr ''new124'')]" example_platform]
  by (simp add: json_request_def property_def prod_eq_iff)

text \<open>
  C9. A successful password change writes the \<open>admin_password\<close> key only: every other
  key, among them \<open>admin_session\<close>, \<open>categories\<close> and \<open>sites\<close>, keeps its value,
  and the response sets no cookie.
\<close>

theorem changePassword_frame:
  assumes "handleChangePassword P req s = (r, s')"
    and "body r = Result True m"
  shows "(\<forall>k. k \<noteq> ''admin_password'' \<longrightarrow> s' k = s k)
         \<and> s' ''admin_session'' = s ''admin_session''
         \<and> s' ''categories'' = s ''categories''
         \<and> s' ''sites'' = s ''sites''
         \<and> headers r = json_headers"
proof -
  have "headers r = json_headers \<and> (s' = s \<or>
          NAVIGATION_STORE_put P ''admin_password''
            (property (the (json_body req)) ''newPassword'') s = Some s')"
    using assms
    by (auto simp: handleChangePassword_def Let_def Response_def
        split: option.splits json.splits if_splits)
  then show ?thesis
    using put_other_key [of P "''admin_password''" _ s s'] by auto
qed

text \<open>
  The theorem at a successful change on a store that holds a session token.
\<close>

theorem changePassword_frame_witness:
  "handleChangePassword example_platform
     (json_request ''/admin/change-password''
        (JObj [(''currentPassword'', JStr ''abc123''), (''newPassword'', JStr ''new123''),
               (''confirmPassword'', JStr ''new123'')]))
     [''admin_password'' \<mapsto> ''abc123'', ''admin_session'' \<mapsto> ''tok1'']
   = (Response (Result True (Some PasswordChanged)) json_headers,
      [''admin_password'' \<mapsto> ''new123'', ''admin_session'' \<mapsto> ''tok1''])
   \<and> [''admin_password'' \<mapsto> ''new123'', ''admin_session'' \<mapsto> ''tok1''] ''admin_session''
       = [''admin_password'' \<mapsto> ''abc123'', ''admin_session'' \<mapsto> ''tok1''] ''admin_session''"
proof -
  have run: "handleChangePassword example_platform
     (json_request ''/admin/change-password''
        (JObj [(''currentPassword'', JStr ''abc123''), (''newPassword'', JStr ''new123''),
               (''confirmPassword'', JStr ''new123'')]))
     [''admin_password'' \<mapsto> ''abc123'', ''admin_session'' \<mapsto> ''tok1'']
   = (Response (Result True (Some PasswordChanged)) json_headers,
      [''admin_password'' \<mapsto> ''new123'', ''admin_session'' \<mapsto> ''tok1''])"
    by (simp add: handleChangePassword_def json_request_def property_def
        NAVIGATION_STORE_get_def of_kv_def put_string Let_def fun_upd_twist)
  show ?thesis
    using changePassword_frame [OF run, of "Some PasswordChanged"] run
    by (simp add: Response_def)
qed

text \<open>
  C10. On a store with no \<open>admin_password\<close> key, a change-password request whose
  \<open>currentPassword\<close> is JSON \<open>null\<close> passes the current-password check (the missing
  stored value reads as \<open>null\<close>); with equal new password and confirmation the request
  succeeds and sets the admin password. The request goes through the router, whatever
  its cookie: no login comes first.
\<close>

theorem changePassword_null_on_fresh_store:
  assumes "s ''admin_password'' = None"
    and "pathname req = ''/admin/change-password''"
    and "req_method req = ''POST''"
    and "json_body req = Some (JObj fs)"
    and "map_of fs ''currentPassword'' = Some JNull"
    and "map_of fs ''newPassword'' = Some (JStr n)"
    and "map_of fs ''confirmPassword'' = Some (JStr n)"
  shows "handleRequest P e req s =
           (Response (Result True (Some PasswordChanged)) json_headers,
            s(''admin_password'' \<mapsto> n))"
  using assms
  by (simp add: handleRequest_def handleAdminRequest_def handleChangePassword_def startsWith_def
      property_def NAVIGATION_STORE_get_def of_kv_def put_string Let_def)

text \<open>
  The theorem at the empty store.
\<close>

theorem changePassword_null_on_fresh_store_witness:
  "handleRequest example_platform (example_env ''0.x'')
     (json_request ''/admin/change-password''
        (JObj [(''currentPassword'', JNull), (''newPassword'', JStr ''mine''),
               (''confirmPassword'', JStr ''mine'')]))
     Map.empty
   = (Response (Result True (Some PasswordChanged)) json_headers,
      [''admin_password'' \<mapsto> ''mine''])"
  using changePassword_null_on_fresh_store [of Map.empty
      "json_request ''/admin/change-password''
        (JObj [(''currentPassword'', JNull), (''newPassword'', JStr ''mine''),
               (''confirmPassword'', JStr ''mine'')])"
      "[(''currentPassword'', JNull), (''newPassword'', JStr ''mine''),
               (''confirmPassword'', JStr ''mine'')]" "''mine''" example_platform
      "example_env ''0.x''"]
  by (simp add: json_request_def)

end
